theory Spec2Isabelle
  imports Main "HOL-Library.Finite_Map" "HOL-Library.Code_Target_Nat"
begin

section \<open>JSON values as the JavaScript code sees them\<close>

text \<open>
  Both servers exchange JSON with the browser and with their stores.  A parsed JSON
  value is \<open>null\<close>, a boolean, a number, a string, an array or an object.  Numbers are
  the integers (the claims use identifiers and small counters only).  An
  object is a finite map from keys to values, so that equality of two objects is
  deep equality, independent of the order of the keys.  JavaScript's \<open>undefined\<close>
  (the value of a missing property) is \<open>None\<close> of \<open>json option\<close>.
\<close>

datatype json =
    JNull
  | JBool bool
  | JNum int
  | JStr string
  | JArr "json list"
  | JObj "(string, json) fmap"

definition obj :: "(string \<times> json) list \<Rightarrow> json" where
  "obj kvs = JObj (fmap_of_list kvs)"

text \<open>Truthiness, as used by \<open>!x\<close>, \<open>x || y\<close> and \<open>if (x)\<close>.\<close>

fun truthy :: "json \<Rightarrow> bool" where
  "truthy JNull = False"
| "truthy (JBool b) = b"
| "truthy (JNum n) = (n \<noteq> 0)"
| "truthy (JStr s) = (s \<noteq> [])"
| "truthy (JArr xs) = True"
| "truthy (JObj m) = True"

fun truthy_opt :: "json option \<Rightarrow> bool" where
  "truthy_opt None = False"
| "truthy_opt (Some v) = truthy v"

text \<open>
  Property access \<open>v?.k\<close>: \<open>undefined\<close> on \<open>null\<close>, and on every value that has no
  own property \<open>k\<close>.  None of the keys the servers read (\<open>id\<close>, \<open>role\<close>, \<open>text\<close>,
  \<open>students\<close>, ...) is a built-in property of a string, number or array, so only
  objects answer.  The plain access \<open>v.k\<close> differs on \<open>null\<close> only, where it throws;
  the places that use it test for \<open>JNull\<close> first.
\<close>

fun get :: "json \<Rightarrow> string \<Rightarrow> json option" where
  "get (JObj m) k = fmlookup m k"
| "get _ k = None"

fun get_opt :: "json option \<Rightarrow> string \<Rightarrow> json option" where
  "get_opt None k = None"
| "get_opt (Some v) k = get v k"

fun isArray :: "json option \<Rightarrow> bool" where
  "isArray (Some (JArr xs)) = True"
| "isArray _ = False"

text \<open>
  Strict equality \<open>a === b\<close> of a possibly undefined \<open>a\<close> with a defined \<open>b\<close>, where
  the two come from different parses (the stored document and the request body):
  primitives compare by value, arrays and objects by reference, hence never equal.
\<close>

fun strict_eq :: "json option \<Rightarrow> json \<Rightarrow> bool" where
  "strict_eq None b = False"
| "strict_eq (Some (JArr xs)) b = False"
| "strict_eq (Some (JObj m)) b = False"
| "strict_eq (Some a) b = (a = b)"

text \<open>
  Exceptions carry the message that the handlers put into the \<open>error\<close> field.  The
  messages of the engine's own \<open>TypeError\<close>s are those of V8.
\<close>

datatype exn = Error string | TypeError string

fun message :: "exn \<Rightarrow> string" where
  "message (Error m) = m"
| "message (TypeError m) = m"

definition quoted :: "string \<Rightarrow> string" where
  "quoted s = CHR 0x27 # s @ [CHR 0x27]"

definition null_read :: "string \<Rightarrow> exn" where
  "null_read k = TypeError (''Cannot read properties of null (reading '' @ quoted k @ '')'')"

definition not_a_function :: "string \<Rightarrow> exn" where
  "not_a_function f = TypeError (f @ '' is not a function'')"

text \<open>An HTTP response: the status and the JSON body given to \<open>res.json\<close>.\<close>

datatype response = Reply (status: nat) (body: json)

definition ok_true :: json where
  "ok_true = obj [(''ok'', JBool True)]"

definition error_body :: "string \<Rightarrow> json" where
  "error_body m = obj [(''error'', JStr m)]"

section \<open>The database-backed server\<close>

subsection \<open>The store\<close>

text \<open>
  The Supabase client is either created (URL and service-role key are set) or \<open>null\<close>.
  Table \<open>app_state\<close> maps a row id to its \<open>data\<close> column; the column holds the document,
  a JSON object, or \<open>null\<close> (\<open>None\<close>): every value this server writes there is the
  default document or a loaded document with fields replaced.  The column
  \<open>updated_at\<close> is written by \<open>saveState\<close> and read nowhere; it is left out.  Table
  \<open>backups\<close> maps the identifier of a backup row, in the textual form it has in the
  URL, to its \<open>data\<close> column.  The store is reliable: a query reports an error only
  when \<open>.single()\<close> does not find its row.
\<close>

type_synonym document = "(string, json) fmap"

record server =
  supabase :: bool
  STATE_ID :: string
  app_state :: "string \<rightharpoonup> document option"
  backups :: "string \<rightharpoonup> json"

definition default_state :: document where
  "default_state = fmap_of_list
     [(''students'', JArr []), (''archived'', JArr []), (''settings'', JObj fmempty)]"

definition loadState :: "server \<Rightarrow> document \<times> server" where
  "loadState srv =
     (if \<not> supabase srv then (default_state, srv)
      else case app_state srv (STATE_ID srv) of
        None \<Rightarrow>
          (default_state,
           srv\<lparr>app_state := (app_state srv)(STATE_ID srv \<mapsto> Some default_state)\<rparr>)
      | Some None \<Rightarrow> (default_state, srv)
      | Some (Some doc) \<Rightarrow> (doc, srv))"

definition saveState :: "document \<Rightarrow> server \<Rightarrow> server" where
  "saveState nextState srv =
     (if \<not> supabase srv then srv
      else srv\<lparr>app_state := (app_state srv)(STATE_ID srv \<mapsto> Some nextState)\<rparr>)"

text \<open>
  An assignment \<open>state.k = v\<close> followed by serialisation: a property whose value is
  \<open>undefined\<close> is not written to the store.
\<close>

fun assign :: "document \<Rightarrow> string \<Rightarrow> json option \<Rightarrow> document" where
  "assign d k None = fmdrop k d"
| "assign d k (Some v) = fmupd k v d"

text \<open>\<open>x || []\<close> for a property value \<open>x\<close>.\<close>

definition or_empty_array :: "json option \<Rightarrow> json" where
  "or_empty_array v = (if truthy_opt v then the v else JArr [])"

subsection \<open>POST /api/archive/student\<close>

text \<open>
  \<open>(state.students || []).findIndex((s) => s.id === studentId)\<close> on an array: the index
  of the first match, \<open>None\<close> for \<open>-1\<close>, and the \<open>TypeError\<close> of \<open>s.id\<close> when the scan
  meets a \<open>null\<close> entry first.
\<close>

fun findIndex :: "json list \<Rightarrow> json \<Rightarrow> exn + nat option" where
  "findIndex [] studentId = Inr None"
| "findIndex (s # ss) studentId =
     (if s = JNull then Inl (null_read ''id'')
      else if strict_eq (get s ''id'') studentId then Inr (Some 0)
      else case findIndex ss studentId of
             Inl e \<Rightarrow> Inl e
           | Inr None \<Rightarrow> Inr None
           | Inr (Some i) \<Rightarrow> Inr (Some (Suc i)))"

text \<open>\<open>xs.splice(idx, 1)\<close>, the array that remains.\<close>

definition splice1 :: "nat \<Rightarrow> 'a list \<Rightarrow> 'a list" where
  "splice1 idx xs = take idx xs @ drop (Suc idx) xs"

text \<open>
  The two assignments to the found student.  The found entry is an object, since its
  \<open>id\<close> matched (\<open>findIndex_object\<close> below); on a primitive the assignment would throw
  in strict mode.
\<close>

fun stamp :: "string \<Rightarrow> json \<Rightarrow> exn + json" where
  "stamp now (JObj m) =
     Inr (JObj (fmupd ''archivedAt'' (JStr now) (fmupd ''status'' (JStr ''Archived'') m)))"
| "stamp now v = Inl (TypeError ''Cannot create property status'')"

definition archive_student :: "string \<Rightarrow> json \<Rightarrow> server \<Rightarrow> response \<times> server" where
  "archive_student now req_body srv =
     (let studentId = get (if truthy req_body then req_body else obj []) ''studentId'' in
      if \<not> truthy_opt studentId then (Reply 400 (error_body ''studentId required''), srv)
      else
        let (state, srv1) = loadState srv in
        case or_empty_array (fmlookup state ''students'') of
          JArr students \<Rightarrow>
            (case findIndex students (the studentId) of
               Inl e \<Rightarrow> (Reply 500 (error_body (message e)), srv1)
             | Inr None \<Rightarrow> (Reply 200 ok_true, srv1)
             | Inr (Some idx) \<Rightarrow>
                 (case stamp now (students ! idx) of
                    Inl e \<Rightarrow> (Reply 500 (error_body (message e)), srv1)
                  | Inr student \<Rightarrow>
                      (case or_empty_array (fmlookup state ''archived'') of
                         JArr archived \<Rightarrow>
                           (Reply 200 ok_true,
                            saveState
                              (fmupd ''archived'' (JArr (student # archived))
                                 (fmupd ''students'' (JArr (splice1 idx students)) state))
                              srv1)
                       | _ \<Rightarrow>
                           (Reply 500
                              (error_body (message (not_a_function ''state.archived.unshift''))),
                            srv1))))
        | _ \<Rightarrow>
            (Reply 500 (error_body (message (not_a_function ''(intermediate value).findIndex''))),
             srv1))"

subsection \<open>GET and POST /api/data\<close>

definition get_data :: "server \<Rightarrow> response \<times> server" where
  "get_data srv =
     (let (state, srv1) = loadState srv in
      (Reply 200 (obj [(''students'', or_empty_array (fmlookup state ''students''))]), srv1))"

text \<open>
  The handler takes \<open>req.body?.students\<close> when it is an array, else
  \<open>req.body?.data?.students\<close> when that is an array, else keeps \<open>state.students\<close>.
\<close>

definition post_data :: "json \<Rightarrow> server \<Rightarrow> response \<times> server" where
  "post_data req_body srv =
     (let (state, srv1) = loadState srv;
          students =
            (if isArray (get req_body ''students'') then get req_body ''students''
             else if isArray (get_opt (get req_body ''data'') ''students'')
               then get_opt (get req_body ''data'') ''students''
             else fmlookup state ''students'')
      in (Reply 200 ok_true, saveState (assign state ''students'' students) srv1))"

subsection \<open>POST /api/backup and GET /api/restore/:id\<close>





subsection \<open>GET and POST /api/settings\<close>

text \<open>Decimal digits of a natural number, for array indices and status codes.\<close>

fun show_nat :: "nat \<Rightarrow> string" where
  "show_nat n =
     (if n < 10 then [''0123456789'' ! n]
      else show_nat (n div 10) @ [''0123456789'' ! (n mod 10)])"

declare show_nat.simps [simp del]

text \<open>
  The own enumerable properties that \<open>{...v}\<close> copies: those of an object, the
  indexed elements of an array, the indexed characters of a string, and nothing for
  every other value.
\<close>

fun spread :: "json \<Rightarrow> document" where
  "spread (JObj m) = m"
| "spread (JArr xs) = fmap_of_list (zip (map show_nat [0..<length xs]) xs)"
| "spread (JStr s) = fmap_of_list (zip (map show_nat [0..<length s]) (map (\<lambda>c. JStr [c]) s))"
| "spread v = fmempty"

text \<open>\<open>x || {}\<close> for a possibly undefined \<open>x\<close>.\<close>

definition or_empty_object :: "json option \<Rightarrow> json" where
  "or_empty_object v = (if truthy_opt v then the v else JObj fmempty)"

text \<open>\<open>if (settings.k) delete settings.k\<close>.\<close>

definition delete_if_truthy :: "string \<Rightarrow> document \<Rightarrow> document" where
  "delete_if_truthy k m = (if truthy_opt (fmlookup m k) then fmdrop k m else m)"

definition get_settings :: "server \<Rightarrow> response \<times> server" where
  "get_settings srv =
     (let (state, srv1) = loadState srv in
      (Reply 200 (or_empty_object (fmlookup state ''settings'')), srv1))"

definition post_settings :: "json \<Rightarrow> server \<Rightarrow> response \<times> server" where
  "post_settings req_body srv =
     (let (state, srv1) = loadState srv;
          merged = spread (or_empty_object (fmlookup state ''settings''))
                     ++\<^sub>f spread (or_empty_object (Some req_body));
          settings = delete_if_truthy ''geminiKey'' (delete_if_truthy ''openaiKey'' merged)
      in (Reply 200 ok_true, saveState (fmupd ''settings'' (JObj settings) state) srv1))"

section \<open>The file-backed server\<close>

subsection \<open>The files\<close>

text \<open>
  A file holds text.  What \<open>readJSONFile\<close> does with it depends only on whether the
  text is empty, is the JSON text of a value, or is anything else (then
  \<open>readFileSync\<close> or \<open>JSON.parse\<close> throws); \<open>JSON.stringify\<close> of a parsed JSON value
  is never empty and parses back to that value.  A file is thus represented by that
  case.  Writing fails on paths the process may not write.
\<close>

datatype content = Empty | Text json | Unreadable

record filesystem =
  files :: "string \<rightharpoonup> content"
  writable :: "string \<Rightarrow> bool"

definition DATA_FILE :: string where
  "DATA_FILE = ''data.json''"

definition ARCHIVE_FILE :: string where
  "ARCHIVE_FILE = ''archive.json''"

definition readJSONFile :: "filesystem \<Rightarrow> string \<Rightarrow> json \<Rightarrow> json" where
  "readJSONFile fs filePath fallback =
     (case files fs filePath of
        None \<Rightarrow> fallback
      | Some Empty \<Rightarrow> fallback
      | Some (Text v) \<Rightarrow> v
      | Some Unreadable \<Rightarrow> fallback)"

definition writeJSONFile :: "string \<Rightarrow> json \<Rightarrow> filesystem \<Rightarrow> bool \<times> filesystem" where
  "writeJSONFile filePath d fs =
     (if writable fs filePath then (True, fs\<lparr>files := (files fs)(filePath \<mapsto> Text d)\<rparr>)
      else (False, fs))"

subsection \<open>The data, archive and settings endpoints\<close>

definition file_get_data :: "filesystem \<Rightarrow> response \<times> filesystem" where
  "file_get_data fs = (Reply 200 (readJSONFile fs DATA_FILE (obj [(''students'', JArr [])])), fs)"

definition file_post_data :: "json \<Rightarrow> filesystem \<Rightarrow> response \<times> filesystem" where
  "file_post_data req_body fs =
     (case writeJSONFile DATA_FILE
             (if truthy req_body then req_body else obj [(''students'', JArr [])]) fs of
        (True, fs1) \<Rightarrow> (Reply 200 ok_true, fs1)
      | (False, fs1) \<Rightarrow> (Reply 500 (error_body ''Failed to save data''), fs1))"

definition file_get_archive :: "filesystem \<Rightarrow> response \<times> filesystem" where
  "file_get_archive fs =
     (Reply 200 (readJSONFile fs ARCHIVE_FILE (obj [(''archived'', JArr [])])), fs)"

definition file_post_archive :: "json \<Rightarrow> filesystem \<Rightarrow> response \<times> filesystem" where
  "file_post_archive req_body fs =
     (case writeJSONFile ARCHIVE_FILE
             (if truthy req_body then req_body else obj [(''archived'', JArr [])]) fs of
        (True, fs1) \<Rightarrow> (Reply 200 ok_true, fs1)
      | (False, fs1) \<Rightarrow> (Reply 500 (error_body ''Failed to save archive''), fs1))"

definition file_get_settings :: "filesystem \<Rightarrow> response \<times> filesystem" where
  "file_get_settings fs = (Reply 200 ok_true, fs)"

definition file_post_settings :: "json \<Rightarrow> filesystem \<Rightarrow> response \<times> filesystem" where
  "file_post_settings req_body fs = (Reply 200 ok_true, fs)"

section \<open>The chat gateway\<close>

subsection \<open>Strings\<close>

text \<open>
  \<open>String(n)\<close> for a number.  A number is named by the integer that its JSON text
  denotes; the engine holds the double nearest to it (ties to the even mantissa)
  and prints the shortest decimal digits that read back as that double.  Below
  \<open>2^53\<close> every integer is a double and these are its own digits; from \<open>10^21\<close> on
  the digits are printed with an exponent; what rounds to \<open>2^1024\<close> is \<open>Infinity\<close>.
\<close>

fun bit_length :: "nat \<Rightarrow> nat" where
  "bit_length n = (if n = 0 then 0 else Suc (bit_length (n div 2)))"

declare bit_length.simps [simp del]

text \<open>The distance between neighbouring doubles at \<open>m\<close>: mantissas have 53 bits.\<close>

definition ulp :: "nat \<Rightarrow> nat" where
  "ulp m = 2 ^ (bit_length m - 53)"

definition nearest_double :: "nat \<Rightarrow> nat" where
  "nearest_double m =
     (let u = ulp m; q = m div u; r = m mod u in
      if 2 * r < u then q * u
      else if u < 2 * r then (q + 1) * u
      else if even q then q * u else (q + 1) * u)"

text \<open>
  Whether the integer \<open>c\<close> reads back as the double \<open>d\<close>: it lies within half the
  distance to the neighbours of \<open>d\<close> (the lower neighbour of a power of two is twice as
  near), the end points counting when the mantissa of \<open>d\<close> is even.  Everything is
  multiplied by four, to stay in the integers.
\<close>

definition reads_as :: "nat \<Rightarrow> nat \<Rightarrow> bool" where
  "reads_as d c =
     (let u = ulp d;
          below = (if d = 2 ^ (bit_length d - 1) then u else 2 * u);
          above = 2 * u
      in if even (d div u) then 4 * d \<le> 4 * c + below \<and> 4 * c \<le> 4 * d + above
         else 4 * d < 4 * c + below \<and> 4 * c < 4 * d + above)"

text \<open>
  The number with the fewest significant digits that reads back as \<open>d\<close>, the one
  nearest to \<open>d\<close> when there are two, the one with the even last digit when they are
  equally near: with \<open>k\<close> digits, the two candidates are the multiples of \<open>10^p\<close> around
  \<open>d\<close>.  With all its digits, \<open>d\<close> itself is found.
\<close>

fun shortest :: "nat \<Rightarrow> nat \<Rightarrow> nat \<Rightarrow> nat" where
  "shortest d k 0 = d"
| "shortest d k (Suc fuel) =
     (let p = length (show_nat d) - k;
          s = d div 10 ^ p;
          c1 = s * 10 ^ p;
          c2 = c1 + 10 ^ p
      in if reads_as d c1 \<and> reads_as d c2 then
           (if d - c1 < c2 - d then c1
            else if c2 - d < d - c1 then c2
            else if even s then c1 else c2)
         else if reads_as d c1 then c1
         else if reads_as d c2 then c2
         else shortest d (Suc k) fuel)"

definition strip_zeros :: "string \<Rightarrow> string" where
  "strip_zeros s = rev (dropWhile (\<lambda>c. c = CHR ''0'') (rev s))"

definition magnitude_string :: "nat \<Rightarrow> string" where
  "magnitude_string m =
     (if m < 2 ^ 53 then show_nat m
      else
        let d = nearest_double m in
        if 2 ^ 1024 \<le> d then ''Infinity''
        else
          let c = shortest d 1 (length (show_nat d));
              n = length (show_nat c);
              s = strip_zeros (show_nat c)
          in if n \<le> 21 then show_nat c
             else if length s = 1 then s @ ''e+'' @ show_nat (n - 1)
             else hd s # ''.'' @ tl s @ ''e+'' @ show_nat (n - 1))"

definition number_string :: "int \<Rightarrow> string" where
  "number_string i =
     (if i < 0 then CHR ''-'' # magnitude_string (nat (- i)) else magnitude_string (nat i))"

fun join_comma :: "string list \<Rightarrow> string" where
  "join_comma [] = []"
| "join_comma [s] = s"
| "join_comma (s # t # ss) = s @ '','' @ join_comma (t # ss)"

text \<open>
  \<open>String(v)\<close>, which is also the message of \<open>new Error(v)\<close>: an array joins the
  strings of its elements, with nothing for \<open>null\<close>.
\<close>

fun js_String :: "json \<Rightarrow> string" where
  "js_String JNull = ''null''"
| "js_String (JBool b) = (if b then ''true'' else ''false'')"
| "js_String (JNum n) = number_string n"
| "js_String (JStr s) = s"
| "js_String (JArr xs) = join_comma (map (\<lambda>x. if x = JNull then [] else js_String x) xs)"
| "js_String (JObj m) = ''[object Object]''"

text \<open>
  \<open>s.trim()\<close> removes the white space and the line terminators of ECMAScript from
  both ends: TAB, LF, VT, FF, CR, SPACE, U+00A0, U+1680, U+2000 to U+200A, U+2028,
  U+2029, U+202F, U+205F, U+3000 and U+FEFF.  Those beyond ASCII are recognised by
  the bytes that they have in UTF-8.
\<close>

definition white_space :: "string list" where
  "white_space =
     [[CHR 0x09], [CHR 0x0A], [CHR 0x0B], [CHR 0x0C], [CHR 0x0D], [CHR 0x20],
      [CHR 0xC2, CHR 0xA0],
      [CHR 0xE1, CHR 0x9A, CHR 0x80],
      [CHR 0xE2, CHR 0x80, CHR 0x80], [CHR 0xE2, CHR 0x80, CHR 0x81],
      [CHR 0xE2, CHR 0x80, CHR 0x82], [CHR 0xE2, CHR 0x80, CHR 0x83],
      [CHR 0xE2, CHR 0x80, CHR 0x84], [CHR 0xE2, CHR 0x80, CHR 0x85],
      [CHR 0xE2, CHR 0x80, CHR 0x86], [CHR 0xE2, CHR 0x80, CHR 0x87],
      [CHR 0xE2, CHR 0x80, CHR 0x88], [CHR 0xE2, CHR 0x80, CHR 0x89],
      [CHR 0xE2, CHR 0x80, CHR 0x8A],
      [CHR 0xE2, CHR 0x80, CHR 0xA8], [CHR 0xE2, CHR 0x80, CHR 0xA9],
      [CHR 0xE2, CHR 0x80, CHR 0xAF],
      [CHR 0xE2, CHR 0x81, CHR 0x9F],
      [CHR 0xE3, CHR 0x80, CHR 0x80],
      [CHR 0xEF, CHR 0xBB, CHR 0xBF]]"

text \<open>Removing from the front, as long as one of the sequences \<open>ws\<close> starts the text.\<close>

function strip_leading :: "string list \<Rightarrow> string \<Rightarrow> string" where
  "strip_leading ws s =
     (case find (\<lambda>w. w \<noteq> [] \<and> take (length w) s = w) ws of
        None \<Rightarrow> s
      | Some w \<Rightarrow> strip_leading ws (drop (length w) s))"
  by pat_completeness auto
termination
proof (relation "measure (\<lambda>(ws, s). length s)")
  show "wf (measure (\<lambda>(ws, s). length s))" by simp
next
  fix ws :: "string list" and s w :: string
  assume "find (\<lambda>w. w \<noteq> [] \<and> take (length w) s = w) ws = Some w"
  then have w: "w \<noteq> []" "take (length w) s = w"
    by (auto simp: find_Some_iff)
  have "length (take (length w) s) = min (length s) (length w)" by simp
  with w(2) have "length w \<le> length s" by simp
  with w(1) show "((ws, drop (length w) s), (ws, s)) \<in> measure (\<lambda>(ws, s). length s)"
    by (cases w) auto
qed

declare strip_leading.simps [simp del]

text \<open>The end of the text is the front of the reversed text.\<close>

definition trim :: "string \<Rightarrow> string" where
  "trim s = rev (strip_leading (map rev white_space) (rev (strip_leading white_space s)))"

text \<open>\<open>x || ""\<close> for a possibly undefined \<open>x\<close>.\<close>

definition or_empty_string :: "json option \<Rightarrow> json" where
  "or_empty_string v = (if truthy_opt v then the v else JStr [])"

text \<open>
  \<open>v?.[0]\<close>: the first element of an array, the property \<open>"0"\<close> of an object, the first
  character of a string.
\<close>

fun index0 :: "json option \<Rightarrow> json option" where
  "index0 (Some (JArr xs)) = (case xs of [] \<Rightarrow> None | x # _ \<Rightarrow> Some x)"
| "index0 (Some (JObj m)) = fmlookup m ''0''"
| "index0 (Some (JStr s)) = (case s of [] \<Rightarrow> None | c # _ \<Rightarrow> Some (JStr [c]))"
| "index0 _ = None"

subsection \<open>The providers\<close>

text \<open>
  What a provider answers is not the servers' to decide: the environment gives, for
  a model name and the list of messages sent, the outcome of the HTTP exchange.  It
  is a failure of the connection (with the time-out of the database-backed server
  among them), or a status with the body, parsed or refused by the parser.  The
  other fields of the request bodies (the temperature, the token limit) are
  constants.  The keys are empty when they are not set.
\<close>

datatype http = NetworkError string | HttpResponse nat "string + json"

record environment =
  OPENAI_API_KEY :: string
  OPENAI_MODEL :: string
  GEMINI_API_KEY :: string
  openai_http :: "string \<Rightarrow> json list \<Rightarrow> http"
  gemini_http :: "string \<Rightarrow> json list \<Rightarrow> http"

text \<open>The requests that went out, in order, each with its model.\<close>

datatype call = OpenAI string | Gemini string

definition chat_failed :: "exn \<Rightarrow> string" where
  "chat_failed e = (if message e \<noteq> [] then message e else ''Chat failed'')"

subsection \<open>The file-backed server: OpenAI first, Gemini as fallback\<close>

definition sys :: json where
  "sys = obj [(''role'', JStr ''system''),
     (''content'', JStr (''You are SSL BOT for Savitri Success Library. Answer in simple Hinglish. ''
        @ ''Help students for any subject/exam. Be polite, concise, and accurate. ''
        @ ''If asked for study material, share official/free resources links when possible.''))]"

text \<open>The function given to \<open>hist.map\<close>; \<open>JNull\<close> is its \<open>null\<close>.\<close>

definition map_turn :: "json \<Rightarrow> json" where
  "map_turn h =
     (if \<not> truthy h then JNull
      else if get h ''role'' = Some (JStr ''user'')
        then obj [(''role'', JStr ''user''),
                  (''content'', JStr (js_String (or_empty_string (get h ''text''))))]
      else if get h ''role'' = Some (JStr ''model'') \<or> get h ''role'' = Some (JStr ''assistant'')
        then obj [(''role'', JStr ''assistant''),
                  (''content'', JStr (js_String (or_empty_string (get h ''text''))))]
      else JNull)"

definition buildMessages :: "json option \<Rightarrow> json option \<Rightarrow> json list" where
  "buildMessages msg history =
     (let hist = (case history of Some (JArr hs) \<Rightarrow> hs | _ \<Rightarrow> []);
          mapped = filter truthy (map map_turn hist)
      in [sys] @ mapped
           @ [obj [(''role'', JStr ''user''), (''content'', JStr (js_String (or_empty_string msg)))]])"

definition callOpenAI :: "environment \<Rightarrow> json option \<Rightarrow> json option \<Rightarrow> (exn + string) \<times> call list" where
  "callOpenAI env msg history =
     (if OPENAI_API_KEY env = [] then (Inl (Error ''OPENAI_API_KEY not set on server''), [])
      else
        (case openai_http env ''gpt-4o-mini'' (buildMessages msg history) of
           NetworkError m \<Rightarrow> Inl (TypeError m)
         | HttpResponse st parsed \<Rightarrow>
             (let data = (case parsed of Inl _ \<Rightarrow> JObj fmempty | Inr j \<Rightarrow> j) in
              if \<not> (200 \<le> st \<and> st \<le> 299) then
                Inl (Error
                  (if truthy_opt (get_opt (get data ''error'') ''message'')
                   then js_String (the (get_opt (get data ''error'') ''message''))
                   else ''OpenAI error HTTP '' @ show_nat st))
              else
                (case or_empty_string
                        (get_opt (get_opt (index0 (get data ''choices'')) ''message'') ''content'') of
                   JStr s \<Rightarrow> Inr (trim s)
                 | _ \<Rightarrow> Inl (not_a_function ''(intermediate value).trim''))),
         [OpenAI ''gpt-4o-mini'']))"

text \<open>
  \<open>callGemini\<close> first maps the history to Gemini's \<open>contents\<close>; \<open>msg.role\<close> throws on a
  \<open>null\<close> entry.
\<close>

definition gemini_turn :: "json \<Rightarrow> json" where
  "gemini_turn m =
     obj [(''role'', JStr (if get m ''role'' = Some (JStr ''user'') then ''user'' else ''model'')),
          (''parts'', JArr [obj [(''text'', JStr (js_String (or_empty_string (get m ''text''))))]])]"

fun gemini_history :: "json list \<Rightarrow> exn + json list" where
  "gemini_history [] = Inr []"
| "gemini_history (m # ms) =
     (if m = JNull then Inl (null_read ''role'')
      else case gemini_history ms of
             Inl e \<Rightarrow> Inl e
           | Inr cs \<Rightarrow> Inr (gemini_turn m # cs))"

definition models :: "string list" where
  "models = [''gemini-2.0-flash'', ''gemini-2.5-flash'', ''gemini-2.0-flash-lite-001'']"

text \<open>The promise of \<open>tryModel\<close>, settled.\<close>

datatype settled = Resolved json string | Rejected nat json string

definition tryModel :: "environment \<Rightarrow> json list \<Rightarrow> string \<Rightarrow> settled" where
  "tryModel env contents model =
     (case gemini_http env model contents of
        NetworkError m \<Rightarrow> Rejected 500 (obj [(''error'', JStr m)]) model
      | HttpResponse st (Inl _) \<Rightarrow> Rejected 500 (obj [(''error'', JStr ''Parse Error'')]) model
      | HttpResponse st (Inr j) \<Rightarrow> (if st = 200 then Resolved j model else Rejected st j model))"

text \<open>
  One turn of the loop over the models: the reply and the model that gave it, or
  the new \<open>lastErr\<close>.  A text that is no string has no \<open>trim\<close>; the \<open>TypeError\<close> is
  caught by the loop's own \<open>catch\<close>, which finds neither \<open>json\<close> nor \<open>model\<close> on it.
\<close>

definition attempt :: "environment \<Rightarrow> json list \<Rightarrow> string \<Rightarrow> exn + string \<times> string" where
  "attempt env contents m =
     (case tryModel env contents m of
        Resolved j model \<Rightarrow>
          (case or_empty_string
                  (get_opt (index0 (get_opt (get_opt (index0 (get j ''candidates'')) ''content'')
                                      ''parts'')) ''text'') of
             JStr txt \<Rightarrow>
               (if trim txt \<noteq> [] then Inr (trim txt, model)
                else Inl (Error (''Gemini empty response ('' @ m @ '')'')))
           | _ \<Rightarrow> Inl (Error ''Gemini failed (undefined)''))
      | Rejected st j model \<Rightarrow>
          Inl (Error
            (if truthy_opt (get_opt (get j ''error'') ''message'')
               then js_String (the (get_opt (get j ''error'') ''message''))
             else if truthy_opt (get j ''error'') then js_String (the (get j ''error''))
             else ''Gemini failed ('' @ model @ '')'')))"

fun try_models ::
  "environment \<Rightarrow> json list \<Rightarrow> string list \<Rightarrow> exn option \<Rightarrow> (exn + string \<times> string) \<times> call list"
where
  "try_models env contents [] lastErr =
     (Inl (case lastErr of Some e \<Rightarrow> e | None \<Rightarrow> Error ''Gemini failed''), [])"
| "try_models env contents (m # ms) lastErr =
     (case attempt env contents m of
        Inr out \<Rightarrow> (Inr out, [Gemini m])
      | Inl e \<Rightarrow>
          (case try_models env contents ms (Some e) of
             (r, calls) \<Rightarrow> (r, Gemini m # calls)))"

text \<open>
  The array \<open>contents\<close> of \<open>callGemini\<close>: the mapped history, then \<open>contents.push\<close> of the
  new user turn.  It is the whole conversation of the request; the only other field
  of the request body is the constant \<open>generationConfig\<close>.
\<close>

definition gemini_contents :: "json option \<Rightarrow> json option \<Rightarrow> exn + json list" where
  "gemini_contents msg history =
     (case gemini_history (case history of Some (JArr hs) \<Rightarrow> hs | _ \<Rightarrow> []) of
        Inl e \<Rightarrow> Inl e
      | Inr contents \<Rightarrow>
          Inr (contents @ [obj [(''role'', JStr ''user''),
                 (''parts'', JArr [obj [(''text'', JStr (js_String (or_empty_string msg)))]])]]))"

definition callGemini ::
  "environment \<Rightarrow> json option \<Rightarrow> json option \<Rightarrow> (exn + string \<times> string) \<times> call list"
where
  "callGemini env msg history =
     (if GEMINI_API_KEY env = [] then (Inl (Error ''GEMINI_API_KEY not set on server''), [])
      else
        case gemini_contents msg history of
          Inl e \<Rightarrow> (Inl e, [])
        | Inr contents \<Rightarrow> try_models env contents models None)"

definition file_chat :: "environment \<Rightarrow> json \<Rightarrow> response \<times> call list" where
  "file_chat env req_body =
     (let b = (if truthy req_body then req_body else obj []);
          history = get b ''history'';
          msg = get b ''message''
      in
      if \<not> truthy_opt msg then (Reply 400 (error_body ''message is required''), [])
      else
        case callOpenAI env msg history of
          (Inr text, calls) \<Rightarrow>
            (Reply 200 (obj [(''text'', JStr text), (''provider'', JStr ''openai'')]), calls)
        | (Inl e1, calls) \<Rightarrow>
            if GEMINI_API_KEY env \<noteq> [] then
              (case callGemini env msg history of
                 (Inr (text, model), calls2) \<Rightarrow>
                   (Reply 200 (obj [(''text'', JStr text), (''provider'', JStr ''gemini''),
                                    (''modelUsed'', JStr model)]),
                    calls @ calls2)
               | (Inl e, calls2) \<Rightarrow> (Reply 500 (error_body (chat_failed e)), calls @ calls2))
            else (Reply 500 (error_body (chat_failed e1)), calls))"

subsection \<open>The database-backed server: OpenAI only\<close>

definition developer :: json where
  "developer = obj [(''role'', JStr ''developer''),
     (''content'', JStr (''You are SSL Bot for Savitri Success Library. ''
        @ ''Answer in simple Hinglish. Be concise and helpful.''))]"

text \<open>The array \<open>input\<close> of \<open>callOpenAI\<close>; the message is defined when it is built.\<close>

definition input :: "json \<Rightarrow> json option \<Rightarrow> json list" where
  "input msg history =
     [developer] @ (case history of Some (JArr hs) \<Rightarrow> hs | _ \<Rightarrow> [])
       @ [obj [(''role'', JStr ''user''), (''content'', msg)]]"

definition db_callOpenAI :: "environment \<Rightarrow> json \<Rightarrow> json option \<Rightarrow> (exn + json) \<times> call list" where
  "db_callOpenAI env msg history =
     (if OPENAI_API_KEY env = [] then (Inl (Error ''Missing OPENAI_API_KEY''), [])
      else
        let model = (if OPENAI_MODEL env \<noteq> [] then OPENAI_MODEL env else ''gpt-5'') in
        (case openai_http env model (input msg history) of
           NetworkError m \<Rightarrow> Inl (Error m)
         | HttpResponse st parsed \<Rightarrow>
             (if \<not> (200 \<le> st \<and> st \<le> 299) then Inl (Error (''OpenAI error '' @ show_nat st))
              else case parsed of
                     Inl m \<Rightarrow> Inl (Error m)
                   | Inr data \<Rightarrow> Inr (or_empty_string (get data ''output_text''))),
         [OpenAI model]))"

definition db_chat :: "environment \<Rightarrow> json \<Rightarrow> response \<times> call list" where
  "db_chat env req_body =
     (let b = (if truthy req_body then req_body else obj []);
          msg = get b ''message'';
          history = get b ''history''
      in
      if \<not> truthy_opt msg then (Reply 400 (error_body ''message is required''), [])
      else
        case db_callOpenAI env (the msg) history of
          (Inr reply, calls) \<Rightarrow>
            (Reply 200 (obj [(''reply'', reply), (''provider'', JStr ''openai'')]), calls)
        | (Inl e, calls) \<Rightarrow> (Reply 500 (error_body (chat_failed e)), calls))"

section \<open>Example states\<close>

text \<open>Concrete documents and servers, on which the properties below are evaluated.\<close>

definition student_s1 :: document where
  "student_s1 = fmap_of_list [(''id'', JStr ''s1''), (''name'', JStr ''Asha'')]"

definition example_document :: document where
  "example_document = fmap_of_list
     [(''students'', JArr [obj [(''id'', JStr ''s0'')], JObj student_s1]),
      (''archived'', JArr [obj [(''id'', JStr ''old'')]]),
      (''settings'', JObj fmempty)]"

definition example_server :: server where
  "example_server = \<lparr>supabase = True, STATE_ID = ''main'',
     app_state = [''main'' \<mapsto> Some example_document], backups = Map.empty\<rparr>"

definition zero_document :: document where
  "zero_document = fmap_of_list
     [(''students'', JArr [obj [(''id'', JNum 0)]]), (''archived'', JArr []),
      (''settings'', JObj fmempty)]"

definition zero_server :: server where
  "zero_server = \<lparr>supabase = True, STATE_ID = ''main'',
     app_state = [''main'' \<mapsto> Some zero_document], backups = Map.empty\<rparr>"


definition fresh_server :: server where
  "fresh_server = \<lparr>supabase = True, STATE_ID = ''main'',
     app_state = Map.empty, backups = Map.empty\<rparr>"

definition off_server :: server where
  "off_server = \<lparr>supabase = False, STATE_ID = ''main'',
     app_state = Map.empty, backups = Map.empty\<rparr>"

definition empty_fs :: filesystem where
  "empty_fs = \<lparr>files = Map.empty, writable = (\<lambda>p. True)\<rparr>"


definition gemini_ok :: json where
  "gemini_ok = obj [(''candidates'',
     JArr [obj [(''content'', obj [(''parts'', JArr [obj [(''text'', JStr ''Namaste'')]])])]])]"

text \<open>OpenAI cannot be reached; every Gemini model answers \<open>Namaste\<close>.\<close>

definition fallback_env :: environment where
  "fallback_env = \<lparr>OPENAI_API_KEY = ''sk'', OPENAI_MODEL = [], GEMINI_API_KEY = ''gk'',
     openai_http = (\<lambda>model msgs. NetworkError ''fetch failed''),
     gemini_http = (\<lambda>model contents. HttpResponse 200 (Inr gemini_ok))\<rparr>"


text \<open>
  The user turn of \<open>"hello"\<close> as Gemini gets it, and an environment in which OpenAI
  cannot be reached and Gemini answers that one conversation only.
\<close>

definition hello_turn :: json where
  "hello_turn = obj [(''role'', JStr ''user''), (''parts'', JArr [obj [(''text'', JStr ''hello'')]])]"

definition hello_only_env :: environment where
  "hello_only_env = \<lparr>OPENAI_API_KEY = ''sk'', OPENAI_MODEL = [], GEMINI_API_KEY = ''gk'',
     openai_http = (\<lambda>model msgs. NetworkError ''fetch failed''),
     gemini_http = (\<lambda>model contents.
       if contents = [hello_turn] then HttpResponse 200 (Inr gemini_ok)
       else NetworkError ''another conversation'')\<rparr>"


section \<open>The claims' words, for comparison with the code\<close>






section \<open>Properties\<close>

lemma findIndex_first:
  assumes "i < length xs"
    and "strict_eq (get (xs ! i) ''id'') sid"
    and "\<forall>j<i. xs ! j \<noteq> JNull \<and> \<not> strict_eq (get (xs ! j) ''id'') sid"
  shows "findIndex xs sid = Inr (Some i)"
  using assms
proof (induction xs arbitrary: i)
  case Nil
  then show ?case by simp
next
  case (Cons x xs)
  show ?case
  proof (cases i)
    case 0
    with Cons.prems(2) have "x \<noteq> JNull" by auto
    with 0 Cons.prems(2) show ?thesis by simp
  next
    case (Suc k)
    from Cons.prems(3) Suc have x: "x \<noteq> JNull" "\<not> strict_eq (get x ''id'') sid"
      by auto
    have "findIndex xs sid = Inr (Some k)"
    proof (rule Cons.IH)
      show "k < length xs" using Cons.prems(1) Suc by simp
      show "strict_eq (get (xs ! k) ''id'') sid" using Cons.prems(2) Suc by simp
      show "\<forall>j<k. xs ! j \<noteq> JNull \<and> \<not> strict_eq (get (xs ! j) ''id'') sid"
        using Cons.prems(3) Suc by auto
    qed
    with x Suc show ?thesis by simp
  qed
qed

text \<open>An index that \<open>findIndex\<close> returns is in range, and the entry there is an object.\<close>

lemma findIndex_object:
  "findIndex xs sid = Inr (Some i) \<Longrightarrow> i < length xs \<and> (\<exists>m. xs ! i = JObj m)"
proof (induction xs arbitrary: i)
  case Nil
  then show ?case by simp
next
  case (Cons x xs)
  show ?case
  proof (cases "strict_eq (get x ''id'') sid")
    case True
    then obtain m where "x = JObj m" by (cases x) auto
    with True Cons.prems show ?thesis by simp
  next
    case False
    with Cons.prems obtain k where "findIndex xs sid = Inr (Some k)" "i = Suc k"
      by (auto split: if_splits sum.splits option.splits)
    with Cons.IH [of k] show ?thesis by simp
  qed
qed


subsection \<open>Archiving a student\<close>

text \<open>
  C1, as amended.  Let the client be configured and the stored document have an
  array \<open>students\<close> whose entry \<open>i\<close> is an object with an \<open>id\<close> strictly equal to the
  truthy \<open>studentId\<close> of the request, no entry before \<open>i\<close> being \<open>null\<close> or having that
  \<open>id\<close>, and let \<open>archived\<close> be an array \<open>as\<close> (or absent or \<open>null\<close>, which counts as the
  empty array).  Then \<open>POST /api/archive/student\<close> answers \<open>{ok: true}\<close> and the stored
  document is the old one with entry \<open>i\<close> removed from \<open>students\<close> and, at the front of
  \<open>archived\<close>, that entry with \<open>status\<close> set to \<open>"Archived"\<close> and \<open>archivedAt\<close> set to the
  current time.
\<close>

theorem archive_student_found:
  assumes conf: "supabase srv"
    and row: "app_state srv (STATE_ID srv) = Some (Some doc)"
    and sid: "get req_body ''studentId'' = Some sid" "truthy sid"
    and studs: "fmlookup doc ''students'' = Some (JArr xs)"
    and idx: "i < length xs" "xs ! i = JObj m" "strict_eq (fmlookup m ''id'') sid"
    and first: "\<forall>j<i. xs ! j \<noteq> JNull \<and> \<not> strict_eq (get (xs ! j) ''id'') sid"
    and arch: "or_empty_array (fmlookup doc ''archived'') = JArr as"
  shows "archive_student now req_body srv =
           (Reply 200 ok_true,
            srv\<lparr>app_state := (app_state srv)(STATE_ID srv \<mapsto> Some
               (fmupd ''archived''
                  (JArr (JObj (fmupd ''archivedAt'' (JStr now)
                                 (fmupd ''status'' (JStr ''Archived'') m)) # as))
                  (fmupd ''students'' (JArr (take i xs @ drop (Suc i) xs)) doc)))\<rparr>)"
proof -
  from sid(1) have tb: "truthy req_body" by (cases req_body) auto
  have ld: "loadState srv = (doc, srv)" using conf row by (simp add: loadState_def)
  have fi: "findIndex xs sid = Inr (Some i)"
    using idx first by (intro findIndex_first) auto
  have st: "or_empty_array (fmlookup doc ''students'') = JArr xs"
    using studs by (simp add: or_empty_array_def)
  show ?thesis
    using tb ld fi st sid idx(2) arch conf
    by (simp add: archive_student_def saveState_def splice1_def)
qed

text \<open>The second of two students is archived in front of an older archive entry.\<close>

theorem archive_student_found_witness:
  "archive_student ''2025-01-01T00:00:00.000Z'' (obj [(''studentId'', JStr ''s1'')]) example_server =
     (Reply 200 ok_true,
      example_server\<lparr>app_state := (app_state example_server)(''main'' \<mapsto> Some
         (fmupd ''archived''
            (JArr [JObj (fmupd ''archivedAt'' (JStr ''2025-01-01T00:00:00.000Z'')
                           (fmupd ''status'' (JStr ''Archived'') student_s1)),
                   obj [(''id'', JStr ''old'')]])
            (fmupd ''students'' (JArr [obj [(''id'', JStr ''s0'')]]) example_document)))\<rparr>)"
  using archive_student_found [of example_server example_document
      "obj [(''studentId'', JStr ''s1'')]" "JStr ''s1''"
      "[obj [(''id'', JStr ''s0'')], JObj student_s1]" 1 student_s1
      "[obj [(''id'', JStr ''old'')]]" "''2025-01-01T00:00:00.000Z''"]
  by (simp add: example_server_def example_document_def student_s1_def obj_def
      or_empty_array_def)

text \<open>
  C1 as stated fails on a falsy identifier: the student whose \<open>id\<close> is the number \<open>0\<close> is
  in \<open>students\<close>, and the request to archive \<open>0\<close> is refused with status 400 by the guard
  \<open>if (!studentId)\<close>; the store is as before.
\<close>

theorem archive_student_falsy_id_counterexample:
  "fmlookup zero_document ''students'' = Some (JArr [obj [(''id'', JNum 0)]])
   \<and> strict_eq (get (obj [(''id'', JNum 0)]) ''id'') (JNum 0)
   \<and> archive_student ''2025-01-01T00:00:00.000Z'' (obj [(''studentId'', JNum 0)]) zero_server =
       (Reply 400 (error_body ''studentId required''), zero_server)"
  by (simp add: zero_document_def zero_server_def obj_def archive_student_def)




subsection \<open>Loading and saving the document\<close>

lemma loadState_saveState:
  "supabase srv \<Longrightarrow> loadState (saveState d srv) = (d, saveState d srv)"
  by (simp add: loadState_def saveState_def)

lemma loadState_supabase: "supabase (snd (loadState srv)) = supabase srv"
  by (simp add: loadState_def split: option.splits)

lemma loadState_unconfigured: "\<not> supabase srv \<Longrightarrow> loadState srv = (default_state, srv)"
  by (simp add: loadState_def)

lemma saveState_unconfigured: "\<not> supabase srv \<Longrightarrow> saveState d srv = srv"
  by (simp add: saveState_def)

text \<open>
  C3, as amended.  In the database-backed server with a configured client, when the
  row is missing, \<open>loadState\<close> returns the default document \<open>{students: [], archived: [],
  settings: {}}\<close> and stores it, so that the next \<open>loadState\<close> reads the stored row and
  changes nothing.  Without a client it returns the default and stores nothing.  In
  the file-backed server \<open>readJSONFile\<close> on a missing file returns the fallback of its
  caller, \<open>{students: []}\<close> for the data file and \<open>{archived: []}\<close> for the archive file,
  and creates no file.
\<close>

theorem load_missing_document:
  "(supabase srv \<and> app_state srv (STATE_ID srv) = None \<longrightarrow>
      fst (loadState srv) = default_state
      \<and> app_state (snd (loadState srv)) (STATE_ID srv) = Some (Some default_state)
      \<and> loadState (snd (loadState srv)) = (default_state, snd (loadState srv)))
   \<and> (\<not> supabase srv \<longrightarrow> loadState srv = (default_state, srv))
   \<and> (files fs filePath = None \<longrightarrow> readJSONFile fs filePath fallback = fallback)
   \<and> (files fs DATA_FILE = None \<longrightarrow>
        file_get_data fs = (Reply 200 (obj [(''students'', JArr [])]), fs))
   \<and> (files fs ARCHIVE_FILE = None \<longrightarrow>
        file_get_archive fs = (Reply 200 (obj [(''archived'', JArr [])]), fs))"
  by (simp add: loadState_def readJSONFile_def file_get_data_def file_get_archive_def)

text \<open>A server without a row, a server without a client, and an empty directory.\<close>

theorem load_missing_document_witness:
  "fst (loadState fresh_server) = default_state
   \<and> app_state (snd (loadState fresh_server)) ''main'' = Some (Some default_state)
   \<and> loadState (snd (loadState fresh_server)) = (default_state, snd (loadState fresh_server))
   \<and> loadState off_server = (default_state, off_server)
   \<and> readJSONFile empty_fs ''data.json'' JNull = JNull
   \<and> file_get_data empty_fs = (Reply 200 (obj [(''students'', JArr [])]), empty_fs)
   \<and> file_get_archive empty_fs = (Reply 200 (obj [(''archived'', JArr [])]), empty_fs)"
  using load_missing_document [of fresh_server empty_fs "''data.json''" JNull]
    load_missing_document [of off_server empty_fs "''data.json''" JNull]
  by (simp add: fresh_server_def off_server_def empty_fs_def DATA_FILE_def ARCHIVE_FILE_def)

text \<open>
  C3 as stated fails in the file-backed server: with no data file, \<open>GET /api/data\<close>
  answers \<open>{students: []}\<close>, which is not the three-field default, and the file is
  still missing afterwards.
\<close>

theorem read_missing_file_counterexample:
  "files empty_fs DATA_FILE = None
   \<and> file_get_data empty_fs = (Reply 200 (obj [(''students'', JArr [])]), empty_fs)
   \<and> obj [(''students'', JArr [])] \<noteq> JObj default_state
   \<and> files (snd (file_get_data empty_fs)) DATA_FILE = None"
proof -
  have "fmlookup (fmap_of_list [(''students'', JArr [])]) ''archived''
      \<noteq> fmlookup default_state ''archived''"
    by (simp add: default_state_def)
  then have "fmap_of_list [(''students'', JArr [])] \<noteq> default_state" by metis
  then show ?thesis
    by (simp add: empty_fs_def file_get_data_def readJSONFile_def obj_def)
qed

text \<open>
  C4, as amended.  With a configured client, \<open>loadState\<close> right after \<open>saveState d\<close>
  returns \<open>d\<close>; on a writable path, \<open>readJSONFile\<close> right after \<open>writeJSONFile\<close> of a value
  returns that value, whatever the fallback, and \<open>GET /api/data\<close> right after a
  successful \<open>POST /api/data\<close> answers the posted body.
\<close>

theorem save_then_load:
  "(supabase srv \<longrightarrow> loadState (saveState d srv) = (d, saveState d srv))
   \<and> (writable fs filePath \<longrightarrow>
        fst (writeJSONFile filePath v fs) = True
        \<and> readJSONFile (snd (writeJSONFile filePath v fs)) filePath fallback = v)
   \<and> (writable fs DATA_FILE \<and> truthy b \<longrightarrow>
        fst (file_post_data b fs) = Reply 200 ok_true
        \<and> fst (file_get_data (snd (file_post_data b fs))) = Reply 200 b)"
  by (simp add: loadState_def saveState_def writeJSONFile_def readJSONFile_def
      file_post_data_def file_get_data_def)

text \<open>The example document, saved to a fresh row and written to an empty directory.\<close>

theorem save_then_load_witness:
  "loadState (saveState example_document fresh_server) =
     (example_document, saveState example_document fresh_server)
   \<and> fst (writeJSONFile ''data.json'' (JObj example_document) empty_fs) = True
   \<and> readJSONFile (snd (writeJSONFile ''data.json'' (JObj example_document) empty_fs))
        ''data.json'' JNull = JObj example_document
   \<and> fst (file_post_data (JObj example_document) empty_fs) = Reply 200 ok_true
   \<and> fst (file_get_data (snd (file_post_data (JObj example_document) empty_fs))) =
        Reply 200 (JObj example_document)"
  using save_then_load [of fresh_server example_document empty_fs "''data.json''"
      "JObj example_document" JNull "JObj example_document"]
  by (simp add: fresh_server_def empty_fs_def DATA_FILE_def)

text \<open>
  C4 as stated fails without a client: \<open>saveState\<close> returns at once (\<open>if (!supabase)
  return\<close>) and \<open>loadState\<close> gives the default document, not the one saved.
\<close>

theorem save_unconfigured_counterexample:
  "fst (loadState (saveState example_document off_server)) = default_state
   \<and> example_document \<noteq> default_state"
proof -
  have "fmlookup example_document ''archived'' \<noteq> fmlookup default_state ''archived''"
    by (simp add: default_state_def example_document_def)
  then have "example_document \<noteq> default_state" by metis
  then show ?thesis
    by (simp add: off_server_def saveState_def loadState_def)
qed

subsection \<open>Backup and restore\<close>




subsection \<open>Settings\<close>

lemma get_truthy_object: "truthy_opt (get b k) \<Longrightarrow> \<exists>m. b = JObj m"
  by (cases b) auto

text \<open>What \<open>GET /api/settings\<close> answers right after a \<open>POST\<close>, on a configured client.\<close>

lemma get_after_post_settings:
  assumes "supabase srv"
  shows "get_settings (snd (post_settings b srv)) =
           (Reply 200 (JObj (delete_if_truthy ''geminiKey'' (delete_if_truthy ''openaiKey''
              (spread (or_empty_object (fmlookup (fst (loadState srv)) ''settings''))
                 ++\<^sub>f spread (or_empty_object (Some b)))))),
            snd (post_settings b srv))"
proof -
  obtain state srv1 where l: "loadState srv = (state, srv1)" by (cases "loadState srv")
  with assms have c: "supabase srv1" using loadState_supabase [of srv] by simp
  show ?thesis
    using l c
    by (simp add: post_settings_def get_settings_def loadState_saveState or_empty_object_def)
qed

lemma get_after_post_settings_unconfigured:
  assumes "\<not> supabase srv"
  shows "get_settings (snd (post_settings b srv)) = (Reply 200 (JObj fmempty), srv)"
  using assms
  by (simp add: post_settings_def get_settings_def loadState_unconfigured
      saveState_unconfigured or_empty_object_def default_state_def)

text \<open>
  C8, as amended.  In the database-backed server with a configured client and no
  settings stored yet, \<open>POST /api/settings {a:1}\<close>, then \<open>POST /api/settings {b:2}\<close>, then
  \<open>GET /api/settings\<close> answers \<open>{a:1, b:2}\<close>.  Whatever is stored, after a post whose
  \<open>openaiKey\<close> is truthy (such as \<open>"x"\<close>) the answer of \<open>GET /api/settings\<close> has no
  \<open>openaiKey\<close>, and the \<open>GET\<close> leaves the store as it is, so every later \<open>GET\<close> answers
  the same.  In the file-backed server both endpoints store nothing and answer
  \<open>{ok: true}\<close>.
\<close>

theorem settings_merge:
  "(supabase srv \<and> or_empty_object (fmlookup (fst (loadState srv)) ''settings'') = JObj fmempty \<longrightarrow>
      fst (get_settings (snd (post_settings (obj [(''b'', JNum 2)])
             (snd (post_settings (obj [(''a'', JNum 1)]) srv))))) =
        Reply 200 (obj [(''a'', JNum 1), (''b'', JNum 2)]))
   \<and> (truthy_opt (get b ''openaiKey'') \<longrightarrow>
        get (body (fst (get_settings (snd (post_settings b srv'))))) ''openaiKey'' = None
        \<and> snd (get_settings (snd (post_settings b srv'))) = snd (post_settings b srv'))
   \<and> file_get_settings (snd (file_post_settings b fs)) = (Reply 200 ok_true, fs)
   \<and> get ok_true ''openaiKey'' = None"
proof -
  have one: "fst (get_settings (snd (post_settings (obj [(''b'', JNum 2)])
             (snd (post_settings (obj [(''a'', JNum 1)]) srv))))) =
        Reply 200 (obj [(''a'', JNum 1), (''b'', JNum 2)])"
    if conf: "supabase srv"
      and empty: "or_empty_object (fmlookup (fst (loadState srv)) ''settings'') = JObj fmempty"
  proof -
    obtain state srv1 where l: "loadState srv = (state, srv1)" by (cases "loadState srv")
    with conf have c1: "supabase srv1" using loadState_supabase [of srv] by simp
    let ?s1 = "fmupd ''settings'' (obj [(''a'', JNum 1)]) state"
    have p1: "snd (post_settings (obj [(''a'', JNum 1)]) srv) = saveState ?s1 srv1"
      using l empty
      by (simp add: post_settings_def or_empty_object_def delete_if_truthy_def obj_def)
    have c2: "supabase (saveState ?s1 srv1)" using c1 by (simp add: saveState_def)
    have l2: "fst (loadState (saveState ?s1 srv1)) = ?s1"
      using c1 by (simp add: loadState_saveState)
    have m: "delete_if_truthy ''geminiKey'' (delete_if_truthy ''openaiKey''
              (fmap_of_list [(''a'', JNum 1)] ++\<^sub>f fmap_of_list [(''b'', JNum 2)])) =
             fmap_of_list [(''a'', JNum 1), (''b'', JNum 2)]"
      by (intro fmap_ext) (auto simp: delete_if_truthy_def)
    show ?thesis
      using get_after_post_settings [OF c2, of "obj [(''b'', JNum 2)]"] p1 l2 m
      by (simp add: or_empty_object_def obj_def)
  qed
  have two: "get (body (fst (get_settings (snd (post_settings b srv'))))) ''openaiKey'' = None
        \<and> snd (get_settings (snd (post_settings b srv'))) = snd (post_settings b srv')"
    if t: "truthy_opt (get b ''openaiKey'')"
  proof (cases "supabase srv'")
    case True
    from t obtain m where b: "b = JObj m" using get_truthy_object by blast
    with t have tm: "truthy_opt (fmlookup m ''openaiKey'')" by simp
    then obtain v where v: "fmlookup m ''openaiKey'' = Some v" "truthy v"
      by (cases "fmlookup m ''openaiKey''") auto
    have "fmlookup (delete_if_truthy ''geminiKey'' (delete_if_truthy ''openaiKey''
             (a ++\<^sub>f m))) ''openaiKey'' = None" for a
      using v fmdomI [of m "''openaiKey''" v] by (simp add: delete_if_truthy_def)
    then show ?thesis
      using get_after_post_settings [OF True, of b] b
      by (simp add: or_empty_object_def)
  next
    case False
    then show ?thesis
      using get_after_post_settings_unconfigured [of srv' b]
      by (simp add: post_settings_def loadState_unconfigured saveState_unconfigured)
  qed
  have three: "file_get_settings (snd (file_post_settings b fs)) = (Reply 200 ok_true, fs)"
    by (simp add: file_get_settings_def file_post_settings_def)
  have four: "get ok_true ''openaiKey'' = None"
    by (simp add: ok_true_def obj_def)
  from one two three four show ?thesis by blast
qed

text \<open>The two posts on a fresh server; the secret key on the example server.\<close>

theorem settings_merge_witness:
  "fst (get_settings (snd (post_settings (obj [(''b'', JNum 2)])
          (snd (post_settings (obj [(''a'', JNum 1)]) fresh_server))))) =
     Reply 200 (obj [(''a'', JNum 1), (''b'', JNum 2)])
   \<and> get (body (fst (get_settings (snd (post_settings (obj [(''openaiKey'', JStr ''x'')])
                                           example_server))))) ''openaiKey'' = None
   \<and> snd (get_settings (snd (post_settings (obj [(''openaiKey'', JStr ''x'')]) example_server))) =
       snd (post_settings (obj [(''openaiKey'', JStr ''x'')]) example_server)
   \<and> file_get_settings (snd (file_post_settings (obj [(''openaiKey'', JStr ''x'')]) empty_fs)) =
       (Reply 200 ok_true, empty_fs)"
proof -
  have l: "or_empty_object (fmlookup (fst (loadState fresh_server)) ''settings'') = JObj fmempty"
    by (simp add: loadState_def fresh_server_def default_state_def or_empty_object_def)
  have c: "supabase fresh_server" by (simp add: fresh_server_def)
  have t: "truthy_opt (get (obj [(''openaiKey'', JStr ''x'')]) ''openaiKey'')"
    by (simp add: obj_def)
  from settings_merge [of fresh_server "obj [(''openaiKey'', JStr ''x'')]" example_server empty_fs]
    l c t
  show ?thesis by simp
qed

text \<open>
  C8 as stated fails in the file-backed server: after the two posts, \<open>GET
  /api/settings\<close> answers \<open>{ok: true}\<close>, not \<open>{a:1, b:2}\<close>.
\<close>

theorem file_settings_counterexample:
  "fst (file_get_settings (snd (file_post_settings (obj [(''b'', JNum 2)])
          (snd (file_post_settings (obj [(''a'', JNum 1)]) empty_fs))))) = Reply 200 ok_true
   \<and> ok_true \<noteq> obj [(''a'', JNum 1), (''b'', JNum 2)]"
proof -
  have "get ok_true ''a'' \<noteq> get (obj [(''a'', JNum 1), (''b'', JNum 2)]) ''a''"
    by (simp add: ok_true_def obj_def)
  then have "ok_true \<noteq> obj [(''a'', JNum 1), (''b'', JNum 2)]" by metis
  then show ?thesis
    by (simp add: file_get_settings_def file_post_settings_def)
qed

subsection \<open>POST /api/data without a list of students\<close>

lemma assign_same: "assign d k (fmlookup d k) = d"
proof (cases "fmlookup d k")
  case None
  then show ?thesis by (intro fmap_ext) auto
next
  case (Some v)
  then show ?thesis by (intro fmap_ext) auto
qed

lemma lookup_assign_other: "k' \<noteq> k \<Longrightarrow> fmlookup (assign d k v) k' = fmlookup d k'"
  by (cases v) auto

lemma server_update_same:
  "app_state srv k = Some v \<Longrightarrow> srv\<lparr>app_state := (app_state srv)(k \<mapsto> v)\<rparr> = srv"
  by (simp add: fun_upd_idem)

text \<open>
  C10.  In the database-backed server, a \<open>POST /api/data\<close> whose body has no array at
  \<open>students\<close> and none at \<open>data.students\<close> answers \<open>{ok: true}\<close>; the document loaded
  afterwards is the document loaded before, and a stored document is stored again
  as it was.  For every body, every field of the document other than \<open>students\<close>
  (so \<open>archived\<close> and \<open>settings\<close>) is as before, and so are the backups.
\<close>

theorem post_data_without_students:
  assumes "\<not> isArray (get req_body ''students'')"
    and "\<not> isArray (get_opt (get req_body ''data'') ''students'')"
  shows "fst (post_data req_body srv) = Reply 200 ok_true
         \<and> fst (loadState (snd (post_data req_body srv))) = fst (loadState srv)
         \<and> (app_state srv (STATE_ID srv) = Some (Some doc) \<longrightarrow>
              snd (post_data req_body srv) = srv)
         \<and> (\<forall>k. k \<noteq> ''students'' \<longrightarrow>
              fmlookup (fst (loadState (snd (post_data any_body srv)))) k =
              fmlookup (fst (loadState srv)) k)
         \<and> backups (snd (post_data any_body srv)) = backups srv"
proof -
  have a: "fst (post_data req_body srv) = Reply 200 ok_true"
    by (simp add: post_data_def split: prod.splits)
  have b: "fst (loadState (snd (post_data req_body srv))) = fst (loadState srv)"
    using assms
    by (simp add: post_data_def loadState_def saveState_def assign_same
        split: option.splits)
  have c: "snd (post_data req_body srv) = srv"
    if "app_state srv (STATE_ID srv) = Some (Some doc)"
    using assms that
    by (simp add: post_data_def loadState_def saveState_def assign_same server_update_same)
  have d: "fmlookup (fst (loadState (snd (post_data any_body srv)))) k =
           fmlookup (fst (loadState srv)) k" if "k \<noteq> ''students''" for k
    using that
    by (simp add: post_data_def loadState_def saveState_def lookup_assign_other
        split: option.splits)
  have e: "backups (snd (post_data any_body srv)) = backups srv"
    by (simp add: post_data_def loadState_def saveState_def split: option.splits)
  from a b c d e show ?thesis by blast
qed

text \<open>
  A body whose \<open>students\<close> is a string changes nothing; a body with the empty list
  replaces \<open>students\<close> and keeps \<open>archived\<close>.
\<close>

theorem post_data_without_students_witness:
  "fst (post_data (obj [(''students'', JStr ''none'')]) example_server) = Reply 200 ok_true
   \<and> fst (loadState (snd (post_data (obj [(''students'', JStr ''none'')]) example_server))) =
       example_document
   \<and> snd (post_data (obj [(''students'', JStr ''none'')]) example_server) = example_server
   \<and> fmlookup (fst (loadState (snd (post_data (obj [(''students'', JArr [])]) example_server))))
        ''archived'' = Some (JArr [obj [(''id'', JStr ''old'')]])
   \<and> fmlookup (fst (loadState (snd (post_data (obj [(''students'', JArr [])]) example_server))))
        ''students'' = Some (JArr [])"
proof -
  have l: "loadState example_server = (example_document, example_server)"
    by (simp add: loadState_def example_server_def)
  have s: "fmlookup (fst (loadState (snd (post_data (obj [(''students'', JArr [])])
             example_server)))) ''students'' = Some (JArr [])"
    by (simp add: post_data_def loadState_def saveState_def example_server_def obj_def)
  from post_data_without_students [of "obj [(''students'', JStr ''none'')]" example_server
      example_document "obj [(''students'', JArr [])]"] l s
  show ?thesis
    by (simp add: obj_def example_server_def example_document_def)
qed

subsection \<open>The messages sent upstream\<close>











text \<open>
  C7, as amended.  For the history \<open>[]\<close> and the message \<open>"hello"\<close>, the messages that
  the file-backed server sends to OpenAI are the system instruction and then one
  user turn with the message, and the \<open>input\<close> that the database-backed server sends
  to OpenAI is the developer instruction and then one user turn with the message;
  the \<open>contents\<close> that the file-backed server sends to Gemini, its fallback, are the
  one user turn with the message and no instruction.
\<close>

theorem first_user_turn:
  "buildMessages (Some (JStr ''hello'')) (Some (JArr [])) =
     [sys, obj [(''role'', JStr ''user''), (''content'', JStr ''hello'')]]
   \<and> input (JStr ''hello'') (Some (JArr [])) =
     [developer, obj [(''role'', JStr ''user''), (''content'', JStr ''hello'')]]
   \<and> gemini_contents (Some (JStr ''hello'')) (Some (JArr [])) =
     Inr [obj [(''role'', JStr ''user''), (''parts'', JArr [obj [(''text'', JStr ''hello'')]])]]"
  by (simp add: buildMessages_def input_def gemini_contents_def or_empty_string_def)

text \<open>
  C7 as stated fails for the request to Gemini: for the history \<open>[]\<close> and the message
  \<open>"hello"\<close> its conversation is the user turn alone, with no instruction before it.
  A Gemini that answers this conversation and no other does answer when OpenAI is
  out of reach.
\<close>

theorem gemini_contents_counterexample:
  "gemini_contents (Some (JStr ''hello'')) (Some (JArr [])) = Inr [hello_turn]
   \<and> get hello_turn ''role'' = Some (JStr ''user'')
   \<and> file_chat hello_only_env (obj [(''message'', JStr ''hello''), (''history'', JArr [])]) =
       (Reply 200 (obj [(''text'', JStr ''Namaste''), (''provider'', JStr ''gemini''),
                        (''modelUsed'', JStr ''gemini-2.0-flash'')]),
        [OpenAI ''gpt-4o-mini'', Gemini ''gemini-2.0-flash''])"
proof -
  have c: "gemini_contents (Some (JStr ''hello'')) (Some (JArr [])) = Inr [hello_turn]"
    by (simp add: gemini_contents_def or_empty_string_def hello_turn_def)
  have r: "get hello_turn ''role'' = Some (JStr ''user'')"
    by (simp add: hello_turn_def obj_def)
  have t: "trim ''Namaste'' = ''Namaste''" by code_simp
  have a: "attempt hello_only_env [hello_turn] ''gemini-2.0-flash'' =
      Inr (''Namaste'', ''gemini-2.0-flash'')"
    by (simp add: attempt_def tryModel_def hello_only_env_def gemini_ok_def obj_def
        or_empty_string_def t)
  have o: "callOpenAI hello_only_env m h =
      (Inl (TypeError ''fetch failed''), [OpenAI ''gpt-4o-mini''])" for m h
    by (simp add: callOpenAI_def hello_only_env_def)
  have k: "GEMINI_API_KEY hello_only_env = ''gk''" by (simp add: hello_only_env_def)
  have g: "callGemini hello_only_env (Some (JStr ''hello'')) (Some (JArr [])) =
      (Inr (''Namaste'', ''gemini-2.0-flash''), [Gemini ''gemini-2.0-flash''])"
    by (simp add: callGemini_def c k models_def a)
  have f: "file_chat hello_only_env (obj [(''message'', JStr ''hello''), (''history'', JArr [])]) =
       (Reply 200 (obj [(''text'', JStr ''Namaste''), (''provider'', JStr ''gemini''),
                        (''modelUsed'', JStr ''gemini-2.0-flash'')]),
        [OpenAI ''gpt-4o-mini'', Gemini ''gemini-2.0-flash''])"
    using o k g by (simp add: file_chat_def obj_def)
  from c r f show ?thesis by simp
qed

subsection \<open>The fallback\<close>

lemma chat_failed_nonempty: "chat_failed e \<noteq> []"
  by (simp add: chat_failed_def)

lemma tryModel_model:
  "tryModel env cs m = Resolved j model \<Longrightarrow> model = m"
  by (auto simp: tryModel_def split: http.splits sum.splits if_splits)

lemma attempt_reply:
  assumes "attempt env cs m = Inr (t, model)"
  shows "t \<noteq> [] \<and> model = m"
  using assms tryModel_model [of env cs m]
  by (auto simp: attempt_def split: settled.splits json.splits if_splits)

lemma try_models_fail:
  "try_models env cs ms lastErr = (Inl e, calls) \<Longrightarrow>
     (\<forall>m\<in>set ms. \<exists>e'. attempt env cs m = Inl e') \<and> calls = map Gemini ms"
proof (induction ms arbitrary: lastErr calls)
  case Nil
  then show ?case by simp
next
  case (Cons m ms)
  from Cons.prems obtain e1 where a: "attempt env cs m = Inl e1"
    by (cases "attempt env cs m") auto
  obtain r calls' where t: "try_models env cs ms (Some e1) = (r, calls')"
    by (cases "try_models env cs ms (Some e1)")
  with a Cons.prems have "r = Inl e" "calls = Gemini m # calls'" by auto
  with t Cons.IH [of "Some e1" calls'] a show ?case by auto
qed

lemma try_models_reply:
  "try_models env cs ms lastErr = (Inr (t, model), calls) \<Longrightarrow>
     \<exists>pre post. ms = pre @ model # post
       \<and> (\<forall>m\<in>set pre. \<exists>e'. attempt env cs m = Inl e')
       \<and> attempt env cs model = Inr (t, model) \<and> t \<noteq> []
       \<and> calls = map Gemini (pre @ [model])"
proof (induction ms arbitrary: lastErr calls)
  case Nil
  then show ?case by simp
next
  case (Cons m ms)
  show ?case
  proof (cases "attempt env cs m")
    case (Inr out)
    with Cons.prems have o: "out = (t, model)" "calls = [Gemini m]" by auto
    with Inr attempt_reply [of env cs m t model] have "t \<noteq> []" "model = m" by auto
    with Inr o have "m # ms = [] @ model # ms
       \<and> (\<forall>m\<in>set []. \<exists>e'. attempt env cs m = Inl e')
       \<and> attempt env cs model = Inr (t, model) \<and> t \<noteq> []
       \<and> calls = map Gemini ([] @ [model])" by simp
    then show ?thesis by blast
  next
    case (Inl e1)
    obtain r calls' where t: "try_models env cs ms (Some e1) = (r, calls')"
      by (cases "try_models env cs ms (Some e1)")
    with Inl Cons.prems have r: "r = Inr (t, model)" "calls = Gemini m # calls'" by auto
    with t Cons.IH [of "Some e1" calls'] obtain pre post where
      p: "ms = pre @ model # post" "\<forall>m\<in>set pre. \<exists>e'. attempt env cs m = Inl e'"
         "attempt env cs model = Inr (t, model)" "t \<noteq> []" "calls' = map Gemini (pre @ [model])"
      by blast
    with Inl r have "m # ms = (m # pre) @ model # post
       \<and> (\<forall>x\<in>set (m # pre). \<exists>e'. attempt env cs x = Inl e')
       \<and> attempt env cs model = Inr (t, model) \<and> t \<noteq> []
       \<and> calls = map Gemini ((m # pre) @ [model])" by simp
    then show ?thesis by blast
  qed
qed

text \<open>The primary failed, a Gemini key is set, and no entry of the history is \<open>null\<close>.\<close>

lemma file_chat_fallback:
  assumes msg: "truthy_opt (get b ''message'')"
    and primary: "callOpenAI env (get b ''message'') (get b ''history'') = (Inl e1, calls1)"
    and key: "GEMINI_API_KEY env \<noteq> []"
    and hist: "gemini_history (case get b ''history'' of Some (JArr hs) \<Rightarrow> hs | _ \<Rightarrow> []) = Inr cs"
  shows "(\<exists>t model pre post. models = pre @ model # post \<and> t \<noteq> []
            \<and> file_chat env b =
                (Reply 200 (obj [(''text'', JStr t), (''provider'', JStr ''gemini''),
                                 (''modelUsed'', JStr model)]),
                 calls1 @ map Gemini (pre @ [model])))
         \<or> (\<exists>m. m \<noteq> [] \<and> file_chat env b = (Reply 500 (error_body m), calls1 @ map Gemini models))"
proof -
  from msg have tb: "truthy b" by (cases b) auto
  let ?cs = "cs @ [obj [(''role'', JStr ''user''),
     (''parts'', JArr [obj [(''text'', JStr (js_String (or_empty_string (get b ''message''))))]])]]"
  obtain r calls2 where t: "try_models env ?cs models None = (r, calls2)"
    by (cases "try_models env ?cs models None")
  have g: "callGemini env (get b ''message'') (get b ''history'') = (r, calls2)"
    using key hist t by (simp add: callGemini_def gemini_contents_def)
  show ?thesis
  proof (cases r)
    case (Inl e)
    with t try_models_fail [of env ?cs models None e calls2]
    have c: "calls2 = map Gemini models" by simp
    have "file_chat env b = (Reply 500 (error_body (chat_failed e)), calls1 @ map Gemini models)"
      using tb msg primary key g Inl c by (simp add: file_chat_def)
    with chat_failed_nonempty [of e] show ?thesis by blast
  next
    case (Inr out)
    obtain tx model where o: "out = (tx, model)" by (cases out)
    with Inr t try_models_reply [of env ?cs models None tx model calls2]
    obtain pre post where p: "models = pre @ model # post" "tx \<noteq> []"
      "calls2 = map Gemini (pre @ [model])" by blast
    have "file_chat env b =
            (Reply 200 (obj [(''text'', JStr tx), (''provider'', JStr ''gemini''),
                             (''modelUsed'', JStr model)]),
             calls1 @ map Gemini (pre @ [model]))"
      using tb msg primary key g Inr o p(3) by (simp add: file_chat_def)
    with p show ?thesis by blast
  qed
qed

text \<open>The primary failed and no Gemini key is set: an error, and no further request.\<close>

lemma file_chat_no_secondary:
  assumes "truthy_opt (get b ''message'')"
    and "callOpenAI env (get b ''message'') (get b ''history'') = (Inl e1, calls1)"
    and "GEMINI_API_KEY env = []"
  shows "file_chat env b = (Reply 500 (error_body (chat_failed e1)), calls1)
         \<and> chat_failed e1 \<noteq> []"
proof -
  from assms(1) have "truthy b" by (cases b) auto
  with assms show ?thesis by (simp add: file_chat_def chat_failed_nonempty)
qed

lemma callOpenAI_calls: "snd (callOpenAI env msg history) = [] \<or>
    snd (callOpenAI env msg history) = [OpenAI ''gpt-4o-mini'']"
  by (simp add: callOpenAI_def)

text \<open>The database-backed server has no second provider.\<close>

lemma db_chat_failure:
  assumes "truthy_opt (get b ''message'')"
    and "db_callOpenAI env (the (get b ''message'')) (get b ''history'') = (Inl e, calls)"
  shows "db_chat env b = (Reply 500 (error_body (chat_failed e)), calls)
         \<and> chat_failed e \<noteq> [] \<and> length calls \<le> 1"
proof -
  from assms(1) have tb: "truthy b" by (cases b) auto
  have "length (snd (db_callOpenAI env (the (get b ''message'')) (get b ''history''))) \<le> 1"
    by (simp add: db_callOpenAI_def Let_def)
  with assms tb show ?thesis by (simp add: db_chat_def chat_failed_nonempty)
qed

text \<open>
  C6 fails on a history with a \<open>null\<close> entry.  OpenAI cannot be reached, a Gemini key
  is set and every Gemini model would answer: \<open>callGemini\<close> throws on \<open>msg.role\<close> before
  it tries a model, and the request ends with status 500 after the one call to
  OpenAI.  With the empty history the first Gemini model answers, and
  \<open>buildMessages\<close> itself accepts the \<open>null\<close> entry.
\<close>

theorem fallback_null_history:
  "file_chat fallback_env (obj [(''message'', JStr ''hi''), (''history'', JArr [JNull])]) =
     (Reply 500 (error_body (message (null_read ''role''))), [OpenAI ''gpt-4o-mini''])
   \<and> file_chat fallback_env (obj [(''message'', JStr ''hi''), (''history'', JArr [])]) =
     (Reply 200 (obj [(''text'', JStr ''Namaste''), (''provider'', JStr ''gemini''),
                      (''modelUsed'', JStr ''gemini-2.0-flash'')]),
      [OpenAI ''gpt-4o-mini'', Gemini ''gemini-2.0-flash''])
   \<and> buildMessages (Some (JStr ''hi'')) (Some (JArr [JNull])) =
     [sys, obj [(''role'', JStr ''user''), (''content'', JStr ''hi'')]]"
proof -
  have o: "callOpenAI fallback_env m h = (Inl (TypeError ''fetch failed''), [OpenAI ''gpt-4o-mini''])"
    for m h
    by (simp add: callOpenAI_def fallback_env_def)
  have k: "GEMINI_API_KEY fallback_env = ''gk''" by (simp add: fallback_env_def)
  have t: "trim ''Namaste'' = ''Namaste''" by code_simp
  have a: "attempt fallback_env cs ''gemini-2.0-flash'' = Inr (''Namaste'', ''gemini-2.0-flash'')"
    for cs
    by (simp add: attempt_def tryModel_def fallback_env_def gemini_ok_def obj_def
        or_empty_string_def t)
  have g1: "callGemini fallback_env (Some (JStr ''hi'')) (Some (JArr [JNull])) =
      (Inl (null_read ''role''), [])"
    by (simp add: callGemini_def gemini_contents_def k)
  have g2: "callGemini fallback_env (Some (JStr ''hi'')) (Some (JArr [])) =
      (Inr (''Namaste'', ''gemini-2.0-flash''), [Gemini ''gemini-2.0-flash''])"
    by (simp add: callGemini_def gemini_contents_def k models_def a)
  have c: "chat_failed (null_read ''role'') = message (null_read ''role'')"
    by (simp add: chat_failed_def null_read_def)
  have b: "buildMessages (Some (JStr ''hi'')) (Some (JArr [JNull])) =
     [sys, obj [(''role'', JStr ''user''), (''content'', JStr ''hi'')]]"
    by (simp add: buildMessages_def map_turn_def or_empty_string_def)
  show ?thesis
    using o k g1 g2 c b by (simp add: file_chat_def obj_def)
qed

end
